theory Spec2Isabelle
  imports Main "HOL-Library.AList" "HOL-Library.Sublist"
begin

section \<open>Python values, strings and dictionaries\<close>

text \<open>
  The methods of \<^verbatim>\<open>mininet/node.py\<close> are modelled as functions on explicit state.
  Arguments that the source compares with \<^verbatim>\<open>None\<close> or tests with
  \<^verbatim>\<open>isinstance(x, str)\<close> are values of \<open>pyval\<close>: \<^verbatim>\<open>None\<close>, a string or an
  (unbounded) integer, which is what the callers pass.
\<close>

datatype pyval = PyNone | PyStr string | PyInt int

datatype py_error = KeyError | TypeError

definition digit_char :: "nat \<Rightarrow> char" where
  "digit_char d = ''0123456789'' ! d"

function str_nat :: "nat \<Rightarrow> string" where
  "str_nat n = (if n < 10 then [digit_char n] else str_nat (n div 10) @ [digit_char (n mod 10)])"
  by pat_completeness auto
termination
  by (relation "measure id") auto

declare str_nat.simps [simp del]

text \<open>\<^verbatim>\<open>str(i)\<close> for an integer: decimal digits, with a leading minus sign below zero.\<close>

definition str_int :: "int \<Rightarrow> string" where
  "str_int i = (if i < 0 then CHR ''-'' # str_nat (nat (- i)) else str_nat (nat i))"

text \<open>\<^verbatim>\<open>str(v)\<close>, which is also what \<^verbatim>\<open>"{}".format(v)\<close> inserts.\<close>

fun py_str :: "pyval \<Rightarrow> string" where
  "py_str PyNone = ''None''"
| "py_str (PyStr s) = s"
| "py_str (PyInt i) = str_int i"


text \<open>
  A Python \<^verbatim>\<open>dict\<close> keeps its keys in insertion order and the loops of the source
  iterate in that order, so a dictionary is an association list: \<^verbatim>\<open>d[k] = v\<close> replaces
  the value in place when the key is present and appends the pair at the end otherwise;
  \<^verbatim>\<open>d[k]\<close> raises \<^verbatim>\<open>KeyError\<close> on a missing key.
\<close>

type_synonym ('k, 'v) dict = "('k \<times> 'v) list"

definition dict_set :: "('k, 'v) dict \<Rightarrow> 'k \<Rightarrow> 'v \<Rightarrow> ('k, 'v) dict" where
  "dict_set d k v = AList.update k v d"

definition dict_get :: "('k, 'v) dict \<Rightarrow> 'k \<Rightarrow> py_error + 'v" where
  "dict_get d k = (case map_of d k of None \<Rightarrow> Inl KeyError | Some v \<Rightarrow> Inr v)"

text \<open>\<^verbatim>\<open>del d[k]\<close> and \<^verbatim>\<open>d.pop(k)\<close> (without a default): \<^verbatim>\<open>KeyError\<close> on a missing key.\<close>

definition dict_del :: "('k, 'v) dict \<Rightarrow> 'k \<Rightarrow> py_error + ('k, 'v) dict" where
  "dict_del d k = (case map_of d k of None \<Rightarrow> Inl KeyError | Some v \<Rightarrow> Inr (AList.delete k d))"

text \<open>Sequencing of steps that may raise: the first exception ends the computation.\<close>

definition and_then :: "py_error + 'a \<Rightarrow> ('a \<Rightarrow> py_error + 'b) \<Rightarrow> py_error + 'b" where
  "and_then r f = (case r of Inl e \<Rightarrow> Inl e | Inr x \<Rightarrow> f x)"

text \<open>\<^verbatim>\<open>max(xs)\<close> on a non-empty list; the source calls it on non-empty lists only.\<close>

fun py_max :: "int list \<Rightarrow> int" where
  "py_max [] = 0"
| "py_max (x # xs) = fold max xs x"

section \<open>Interfaces\<close>

text \<open>
  Interface objects are shared and mutated in place (\<^verbatim>\<open>setVRF\<close>, \<^verbatim>\<open>setBDI\<close>), and the
  dictionaries of a node are keyed by object identity, so the node state carries a store
  \<open>objs\<close> from references to objects.

  Modelled from the spec: the class \<^verbatim>\<open>Intf\<close> of \<^verbatim>\<open>mininet/link.py\<close>, which is not among
  the sources. An interface has a name, a MAC and an IP address, an optional VRF tag that
  defaults to \<^verbatim>\<open>default\<close> and an optional bridge-domain index; the getters \<^verbatim>\<open>MAC()\<close>,
  \<^verbatim>\<open>VRF()\<close>, \<^verbatim>\<open>BDI()\<close> read the fields and the setters write them. Commands that
  a setter may send to the shell are not part of the model.
\<close>

type_synonym ref = nat

record Intf =
  intf_name :: string
  mac :: "string option"
  ip :: "string option"
  vrf :: string
  bdi :: "int option"

definition new_Intf :: "string \<Rightarrow> Intf" where
  "new_Intf nm = \<lparr>intf_name = nm, mac = None, ip = None, vrf = ''default'', bdi = None\<rparr>"

definition setMAC :: "string \<Rightarrow> Intf \<Rightarrow> Intf" where
  "setMAC m i = i\<lparr>mac := Some m\<rparr>"

definition setIP :: "string \<Rightarrow> Intf \<Rightarrow> Intf" where
  "setIP a i = i\<lparr>ip := Some a\<rparr>"

definition setVRF :: "string \<Rightarrow> Intf \<Rightarrow> Intf" where
  "setVRF v i = i\<lparr>vrf := v\<rparr>"

definition setBDI :: "int option \<Rightarrow> Intf \<Rightarrow> Intf" where
  "setBDI b i = i\<lparr>bdi := b\<rparr>"



section \<open>Node: the interface registry\<close>

text \<open>
  \<open>cmds\<close> is the list of command strings sent to the node's shell by \<^verbatim>\<open>self.cmd\<close>, in
  order; \<open>shell_out k\<close> is the output that the shell gives to the \<open>k\<close>-th command.
  \<open>moved\<close> lists the interface names handed to the default \<^verbatim>\<open>moveIntf\<close>.
\<close>

record Node =
  node_name :: string
  inNamespace :: bool
  portBase :: int
  intfs :: "(int, ref) dict"
  ports :: "(ref, int) dict"
  nameToIntf :: "(string, ref) dict"
  objs :: "ref \<Rightarrow> Intf"
  next_ref :: ref
  cmds :: "string list"
  shell_out :: "nat \<Rightarrow> string"
  moved :: "string list"

definition cmd :: "'a Node_scheme \<Rightarrow> string \<Rightarrow> string \<times> 'a Node_scheme" where
  "cmd n c = (shell_out n (length (cmds n)), n\<lparr>cmds := cmds n @ [c]\<rparr>)"

definition run :: "'a Node_scheme \<Rightarrow> string \<Rightarrow> 'a Node_scheme" where
  "run n c = snd (cmd n c)"

text \<open>
  Modelled from the spec: \<^verbatim>\<open>mininet.util.moveIntf\<close>, which is not among the sources;
  the interface is relocated into the node's namespace, which the model records.
\<close>

definition moveIntf :: "string \<Rightarrow> 'a Node_scheme \<Rightarrow> 'a Node_scheme" where
  "moveIntf nm n = n\<lparr>moved := moved n @ [nm]\<rparr>"

definition newPort :: "'a Node_scheme \<Rightarrow> int" where
  "newPort n = (if length (ports n) > 0 then py_max (map snd (ports n)) + 1 else portBase n)"

definition addIntf ::
  "'a Node_scheme \<Rightarrow> ref \<Rightarrow> int option \<Rightarrow> (string \<Rightarrow> 'a Node_scheme \<Rightarrow> 'a Node_scheme) \<Rightarrow> 'a Node_scheme" where
  "addIntf n intf port moveIntfFn =
     (let port = (case port of None \<Rightarrow> newPort n | Some p \<Rightarrow> p);
          n = n\<lparr>intfs := dict_set (intfs n) port intf\<rparr>;
          n = n\<lparr>ports := dict_set (ports n) intf port\<rparr>;
          n = n\<lparr>nameToIntf := dict_set (nameToIntf n) (intf_name (objs n intf)) intf\<rparr>
      in if inNamespace n then moveIntfFn (intf_name (objs n intf)) n else n)"

definition delIntf :: "'a Node_scheme \<Rightarrow> ref \<Rightarrow> py_error + 'a Node_scheme" where
  "delIntf n intf =
     (case map_of (ports n) intf of
        None \<Rightarrow> Inr n
      | Some port \<Rightarrow>
          and_then (dict_del (intfs n) port) (\<lambda>d1.
          and_then (dict_del (ports n) intf) (\<lambda>d2.
          and_then (dict_del (nameToIntf n) (intf_name (objs n intf))) (\<lambda>d3.
            Inr (n\<lparr>intfs := d1, ports := d2, nameToIntf := d3\<rparr>)))))"

text \<open>
  The ports that a sequence of \<^verbatim>\<open>addIntf\<close> calls without a port argument assigns: after
  each call, the port recorded for the interface just added.
\<close>

fun auto_ports :: "'a Node_scheme \<Rightarrow> ref list \<Rightarrow> int option list" where
  "auto_ports n [] = []"
| "auto_ports n (i # is) =
     (let n' = addIntf n i None moveIntf in map_of (ports n') i # auto_ports n' is)"

text \<open>
  The two registries are inverse to each other: every port of \<open>intfs\<close> leads to an
  interface that \<open>ports\<close> sends back to it, and conversely.
\<close>

definition port_bijection :: "'a Node_scheme \<Rightarrow> bool" where
  "port_bijection n \<longleftrightarrow>
     (\<forall>(p, i) \<in> set (intfs n). map_of (ports n) i = Some p) \<and>
     (\<forall>(i, p) \<in> set (ports n). map_of (intfs n) p = Some i)"

section \<open>DockerRouter: routing configuration, VRFs and bridge domains\<close>

text \<open>
  \<open>vrfVniDict\<close> maps a VRF name to the pair of its L3 VNI (or \<^verbatim>\<open>None\<close>) and the list of
  its L2 VNIs; \<open>bdIntfDict\<close> maps a bridge-domain index (the value of \<^verbatim>\<open>BDI()\<close> of a
  bridge interface) to the list of interface objects attached to it.
\<close>

record DockerRouter = Node +
  software :: string
  daemonsOptions :: "(string, string) dict"
  daemonConfigs :: "(string, string list) dict"
  generalConfig :: "string list"
  loopbackIP :: string
  vrfDict :: "(string, int) dict"
  tableVrfDict :: "(int, int) dict"
  vrfVniDict :: "(string, int option \<times> int list) dict"
  bdIntfDict :: "(int option, ref list) dict"
  effIntfs :: "(string, int) dict"

definition dquote :: string where
  "dquote = [CHR 0x22]"

text \<open>The two characters backslash and \<^verbatim>\<open>n\<close> that the source appends to every line.\<close>

definition esc_nl :: string where
  "esc_nl = [CHR 0x5C, CHR ''n'']"


definition setupRoutingConfigByProtocol ::
  "'a DockerRouter_scheme \<Rightarrow> string \<Rightarrow> py_error + 'a DockerRouter_scheme" where
  "setupRoutingConfigByProtocol r protocol =
     and_then (dict_get (daemonConfigs r) protocol) (\<lambda>lines.
       let configStr = fold (\<lambda>i acc. acc @ i @ esc_nl) lines []
       in Inr (run r (''echo -e '' @ dquote @ configStr @ dquote @ '' > /etc/'' @ software r @ ''/''
                       @ protocol @ ''.conf'')))"

definition addRoutingConfig ::
  "'a DockerRouter_scheme \<Rightarrow> string option \<Rightarrow> string \<Rightarrow> py_error + 'a DockerRouter_scheme" where
  "addRoutingConfig r protocol configStr =
     (if protocol \<noteq> None \<and> configStr \<noteq> [] then
        and_then (dict_get (daemonConfigs r) (the protocol)) (\<lambda>lines.
          Inr (r\<lparr>daemonConfigs := dict_set (daemonConfigs r) (the protocol) (lines @ [configStr])\<rparr>))
      else Inr (r\<lparr>generalConfig := generalConfig r @ [configStr]\<rparr>))"

definition addVRF :: "'a DockerRouter_scheme \<Rightarrow> string \<Rightarrow> int \<Rightarrow> 'a DockerRouter_scheme" where
  "addVRF r name tableId =
     (let r = r\<lparr>vrfDict := dict_set (vrfDict r) name tableId\<rparr>;
          r = run r (''ip link add '' @ name @ '' type vrf table '' @ str_int tableId);
          r = run r (''ip link set '' @ name @ '' up'');
          r = run r (''ip link add '' @ name @ ''-br type bridge'');
          r = run r (''ip link set '' @ name @ ''-br master '' @ name @ '' addrgenmode none'');
          r = run r (''ip link set '' @ name @ ''-br up'');
          r = r\<lparr>tableVrfDict := dict_set (tableVrfDict r) tableId tableId\<rparr>
      in r\<lparr>vrfVniDict := dict_set (vrfVniDict r) name (None, [])\<rparr>)"

definition DockerRouter_attachIntfToL2VNI ::
  "'a DockerRouter_scheme \<Rightarrow> string \<Rightarrow> int \<Rightarrow> string option \<Rightarrow> py_error + 'a DockerRouter_scheme" where
  "DockerRouter_attachIntfToL2VNI r intfName vni brname =
     (let brname = (case brname of None \<Rightarrow> ''br'' @ str_int vni | Some b \<Rightarrow> b) in
      and_then (dict_get (nameToIntf r) intfName) (\<lambda>intf.
      and_then (dict_get (nameToIntf r) brname) (\<lambda>brIntf.
        let r = r\<lparr>objs := (objs r)(intf := setVRF (vrf (objs r brIntf)) (objs r intf))\<rparr>;
            r = r\<lparr>objs := (objs r)(intf := setBDI (bdi (objs r brIntf)) (objs r intf))\<rparr>;
            r = run r (''ip link set '' @ intfName @ '' down'');
            r = run r (''ip link set '' @ intfName @ '' master '' @ brname @ '' addrgenmode none'');
            r = run r (''ip link set '' @ intfName @ '' up'')
        in and_then (dict_get (bdIntfDict r) (bdi (objs r brIntf))) (\<lambda>l.
             Inr (r\<lparr>bdIntfDict := dict_set (bdIntfDict r) (bdi (objs r brIntf)) (l @ [intf])\<rparr>)))))"

text \<open>The override of \<^verbatim>\<open>addIntf\<close> that also registers the interface as effective.\<close>

definition DockerRouter_addIntf ::
  "'a DockerRouter_scheme \<Rightarrow> ref \<Rightarrow> int option
     \<Rightarrow> (string \<Rightarrow> 'a DockerRouter_scheme \<Rightarrow> 'a DockerRouter_scheme)
     \<Rightarrow> py_error + 'a DockerRouter_scheme" where
  "DockerRouter_addIntf r intf port moveIntfFn =
     (let r = addIntf r intf port moveIntfFn in
      and_then (dict_get (ports r) intf) (\<lambda>p.
        Inr (r\<lparr>effIntfs := dict_set (effIntfs r) (intf_name (objs r intf)) p\<rparr>)))"

text \<open>
  Modelled from the spec: the constructor \<^verbatim>\<open>Intf(name, node=self, moveIntfFn=f)\<close> of
  \<^verbatim>\<open>mininet/link.py\<close>, which is not among the sources: it creates the object and registers
  it with the node through the node's \<^verbatim>\<open>addIntf\<close>, without a port argument.
\<close>

definition Intf_init ::
  "'a DockerRouter_scheme \<Rightarrow> string \<Rightarrow> (string \<Rightarrow> 'a DockerRouter_scheme \<Rightarrow> 'a DockerRouter_scheme)
     \<Rightarrow> py_error + (ref \<times> 'a DockerRouter_scheme)" where
  "Intf_init r nm moveIntfFn =
     (let intf = next_ref r;
          r = r\<lparr>objs := (objs r)(intf := new_Intf nm), next_ref := Suc (next_ref r)\<rparr>
      in and_then (DockerRouter_addIntf r intf None moveIntfFn) (\<lambda>r. Inr (intf, r)))"

text \<open>
  \<^verbatim>\<open>Subnet.ipToMac\<close> of \<^verbatim>\<open>mininet/config.py\<close> is not among the sources and is a parameter.
  \<^verbatim>\<open>self.vrfVniDict[vrf][1].append(vni)\<close> appends to the list inside the entry.
\<close>

definition DockerRouter_addL2VNI ::
  "(string \<Rightarrow> string) \<Rightarrow> 'a DockerRouter_scheme \<Rightarrow> int \<Rightarrow> string \<Rightarrow> string option \<Rightarrow> string option
     \<Rightarrow> string \<Rightarrow> py_error + 'a DockerRouter_scheme" where
  "DockerRouter_addL2VNI ipToMac r vni brip devname brname vrfname =
     (let devname = (case devname of None \<Rightarrow> ''vxlan'' @ str_int vni | Some d \<Rightarrow> d);
          brname = (case brname of None \<Rightarrow> ''br'' @ str_int vni | Some b \<Rightarrow> b);
          r = run r (''ip link add '' @ brname @ '' type bridge'');
          r = run r (''ip link set '' @ brname @ '' addrgenmode none'') in
      and_then (Intf_init r brname (\<lambda>intf dstNode. dstNode)) (\<lambda>(intf, r).
        let r = r\<lparr>objs := (objs r)(intf := setMAC (ipToMac brip) (objs r intf))\<rparr>;
            r = r\<lparr>objs := (objs r)(intf := setIP brip (objs r intf))\<rparr>;
            r = r\<lparr>objs := (objs r)(intf := setVRF vrfname (objs r intf))\<rparr>;
            r = r\<lparr>objs := (objs r)(intf := setBDI (Some vni) (objs r intf))\<rparr>;
            r = run r (''ebtables -t filter -A INPUT  -i '' @ devname @ '' -j DROP'');
            r = run r (''ebtables -t filter -A INPUT  -i '' @ brname @ '' -j DROP'');
            r = run r (''ip link add '' @ devname @ '' type vxlan local '' @ loopbackIP r
                        @ '' dstport 4789 id '' @ str_int vni @ '' nolearning'');
            r = run r (''ip link set '' @ devname @ '' master '' @ brname @ '' addrgenmode none'');
            r = run r (''ip link set '' @ devname @ '' type bridge_slave neigh_suppress off learning off'');
            r = run r (''ip link set '' @ devname @ '' up'');
            r = run r (''ip link set '' @ brname @ '' up'')
        in and_then (dict_get (vrfVniDict r) vrfname) (\<lambda>(l3, l2s).
           let r = r\<lparr>vrfVniDict := dict_set (vrfVniDict r) vrfname (l3, l2s @ [vni])\<rparr>
           in Inr (r\<lparr>bdIntfDict := dict_set (bdIntfDict r) (bdi (objs r intf)) []\<rparr>))))"

definition addL3VNI ::
  "'a DockerRouter_scheme \<Rightarrow> int \<Rightarrow> string option \<Rightarrow> string \<Rightarrow> py_error + 'a DockerRouter_scheme" where
  "addL3VNI r vni devname vrfname =
     (let devname = (case devname of None \<Rightarrow> ''vxlan'' @ str_int vni | Some d \<Rightarrow> d);
          r = run r (''ip link add '' @ devname @ '' type vxlan local '' @ loopbackIP r @ '' id ''
                      @ str_int vni @ '' dstport 4789 nolearning'');
          r = run r (''ip link set '' @ devname @ '' master '' @ vrfname @ ''-br addrgenmode none'');
          r = run r (''ip link set '' @ devname @ '' type bridge_slave neigh_suppress on learning off'');
          r = run r (''ip link set '' @ devname @ '' up'')
      in and_then (dict_get (vrfVniDict r) vrfname) (\<lambda>(l3, l2s).
           Inr (r\<lparr>vrfVniDict := dict_set (vrfVniDict r) vrfname (Some vni, l2s)\<rparr>)))"

section \<open>DockerP4Router: ACL entries and forwarding-table files\<close>

text \<open>
  \<open>files\<close> maps the name of a file written by the node to its content; \<open>host\<close> lists the
  commands given to \<^verbatim>\<open>os.system\<close>; \<open>dc_id\<close> is \<^verbatim>\<open>self.dc['Id']\<close>.
\<close>

record DockerP4Router = DockerRouter +
  json_path :: string
  target_path :: string
  thrift_port :: "int option"
  pcap_dump :: "string option"
  enable_debugger :: bool
  log_console :: bool
  log_level :: string
  nanomsg :: string
  rt_mediator :: "string option"
  runtime_api :: "string option"
  bgp_adv_modifier :: "string option"
  switch_agent :: "string option"
  packet_injector :: "string option"
  cpu_input_port :: int
  cpu_output_port :: int
  aclConfig :: "pyval list list"
  adminIP :: pyval
  faultReportCollectionPort :: pyval
  files :: "(string, string) dict"
  host :: "string list"
  dc_id :: string

definition setAdminConfig :: "DockerP4Router \<Rightarrow> pyval \<Rightarrow> pyval \<Rightarrow> DockerP4Router" where
  "setAdminConfig r a p = r\<lparr>adminIP := a, faultReportCollectionPort := p\<rparr>"

text \<open>\<^verbatim>\<open>v if isinstance(v, str) else "{}&&&mask".format(v)\<close>\<close>

definition masked :: "pyval \<Rightarrow> string \<Rightarrow> pyval" where
  "masked v m = (case v of PyStr s \<Rightarrow> PyStr s | _ \<Rightarrow> PyStr (py_str v @ ''&&&'' @ m))"

definition addACLConfig ::
  "DockerP4Router \<Rightarrow> pyval \<Rightarrow> pyval \<Rightarrow> pyval \<Rightarrow> pyval \<Rightarrow> pyval \<Rightarrow> DockerP4Router" where
  "addACLConfig r dstAddr srcAddr protocol dstPort srcPort =
     (let acl_entry = replicate 7 (PyStr ''0&&&0'');
          acl_entry = (if dstAddr \<noteq> PyNone then acl_entry[0 := dstAddr] else acl_entry);
          acl_entry = (if srcAddr \<noteq> PyNone then acl_entry[1 := srcAddr] else acl_entry);
          acl_entry = (if protocol \<noteq> PyNone then acl_entry[2 := masked protocol ''0xff'']
                       else acl_entry);
          acl_entry =
            (if protocol = PyInt 6 then
               (let acl_entry = (if dstPort \<noteq> PyNone then acl_entry[3 := masked dstPort ''0xffff'']
                                 else acl_entry)
                in if srcPort \<noteq> PyNone then acl_entry[4 := masked srcPort ''0xffff''] else acl_entry)
             else if protocol = PyInt 17 then
               (let acl_entry = (if dstPort \<noteq> PyNone then acl_entry[5 := masked dstPort ''0xffff'']
                                 else acl_entry)
                in if srcPort \<noteq> PyNone then acl_entry[6 := masked srcPort ''0xffff''] else acl_entry)
             else acl_entry)
      in r\<lparr>aclConfig := aclConfig r @ [acl_entry]\<rparr>)"



definition nl :: string where
  "nl = [CHR 0x0A]"


definition append_file :: "DockerP4Router \<Rightarrow> string \<Rightarrow> string list \<Rightarrow> DockerP4Router" where
  "append_file r filename ws =
     r\<lparr>files := dict_set (files r) filename
                  ((case map_of (files r) filename of None \<Rightarrow> [] | Some old \<Rightarrow> old) @ concat ws)\<rparr>"



definition setupSubnetTable ::
  "DockerP4Router \<Rightarrow> (string \<times> string) list \<Rightarrow> DockerP4Router" where
  "setupSubnetTable r macTable =
     append_file r (''./Subnet-'' @ node_name r @ ''.txt'')
       (map (\<lambda>entry. ''table_add DstMac_FIB set_dmac '' @ fst entry @ '' => '' @ snd entry @ nl)
          macTable)"

subsection \<open>The startup table\<close>

text \<open>
  \<^verbatim>\<open>setupStartupTables\<close> is called without arguments, so the table and action names are the
  defaults of its signature. \<open>table_add t a k v\<close> is
  \<^verbatim>\<open>"table_add {} {} {} => {}\n".format(t, a, k, v)\<close>.
\<close>

definition table_add :: "string \<Rightarrow> string \<Rightarrow> string \<Rightarrow> string \<Rightarrow> string" where
  "table_add t a k v = ''table_add '' @ t @ '' '' @ a @ '' '' @ k @ '' => '' @ v @ nl"









text \<open>
  A command of the startup table that concerns a multicast group: an
  \<^verbatim>\<open>EthernetMcast_FIB\<close> entry or an \<^verbatim>\<open>mc_mgrp_add\<close> command.
\<close>

definition is_mcast_cmd :: "string \<Rightarrow> bool" where
  "is_mcast_cmd l \<longleftrightarrow> prefix ''table_add EthernetMcast_FIB '' l \<or> prefix ''mc_mgrp_add '' l"

subsection \<open>The lookup files of the mediator\<close>









subsection \<open>Bridge domains on the P4 router\<close>

definition DockerP4Router_addL2VNI ::
  "(string \<Rightarrow> string) \<Rightarrow> DockerP4Router \<Rightarrow> int \<Rightarrow> string \<Rightarrow> string option \<Rightarrow> string option
     \<Rightarrow> string \<Rightarrow> py_error + DockerP4Router" where
  "DockerP4Router_addL2VNI ipToMac r vni brip devname brname vrfname =
     (let devname = (case devname of None \<Rightarrow> ''vxlan'' @ str_int vni | Some d \<Rightarrow> d);
          brname = (case brname of None \<Rightarrow> ''br'' @ str_int vni | Some b \<Rightarrow> b) in
      and_then (DockerRouter_addL2VNI ipToMac r vni brip (Some devname) (Some brname) vrfname) (\<lambda>r.
      and_then (dict_del (effIntfs r) brname) (\<lambda>d. Inr (r\<lparr>effIntfs := d\<rparr>))))"

definition DockerP4Router_attachIntfToL2VNI ::
  "DockerP4Router \<Rightarrow> string \<Rightarrow> int \<Rightarrow> string option \<Rightarrow> py_error + DockerP4Router" where
  "DockerP4Router_attachIntfToL2VNI r intfName vni brname =
     and_then (DockerRouter_attachIntfToL2VNI r intfName vni brname) (\<lambda>r.
       let r = run r (''ebtables -t filter -A FORWARD  -i '' @ intfName @ '' -p ip -j DROP'')
       in Inr (run r (''ebtables -t filter -A INPUT  -i '' @ intfName @ '' -p ip -j DROP'')))"

section \<open>Starting a node\<close>








subsection \<open>\<^verbatim>\<open>DockerP4Router.start\<close>\<close>









text \<open>
  The two loops of \<^verbatim>\<open>start\<close> have no bound in the source. The model runs each of them
  for at most \<open>fuel\<close> passes and reports where the node stands: still installing tables,
  still waiting for the mediator, or through.
\<close>

datatype 'a progress = Finished 'a | InstallingTables 'a | AwaitingMediator 'a

definition install_cmds :: "string list" where
  "install_cmds =
     [''python3 /tmp/runtime_API.py < /tmp/Startup_cmds'',
      ''python3 /tmp/runtime_API.py < /tmp/Subnet_cmds'',
      ''python3 /tmp/runtime_API.py < /tmp/ACL_cmds'']"

fun install_loop ::
  "nat \<Rightarrow> DockerP4Router \<Rightarrow> string \<Rightarrow> string \<Rightarrow> string \<Rightarrow> DockerP4Router progress" where
  "install_loop fuel r check_point1 check_point2 check_point3 =
     (if \<not> sublist ''RuntimeCmd'' check_point1 \<or> \<not> sublist ''RuntimeCmd'' check_point2
         \<or> \<not> sublist ''RuntimeCmd'' check_point3 then
        (case fuel of
           0 \<Rightarrow> InstallingTables r
         | Suc fuel' \<Rightarrow>
            (let (check_point1, r) = cmd r ''python3 /tmp/runtime_API.py < /tmp/Startup_cmds'';
                 (check_point2, r) = cmd r ''python3 /tmp/runtime_API.py < /tmp/Subnet_cmds'';
                 (check_point3, r) = cmd r ''python3 /tmp/runtime_API.py < /tmp/ACL_cmds''
             in install_loop fuel' r check_point1 check_point2 check_point3))
      else Finished r)"

declare install_loop.simps [simp del]








text \<open>
  Two states that differ at most in the files written and in the commands given to
  \<^verbatim>\<open>os.system\<close>.
\<close>

definition same_node :: "DockerP4Router \<Rightarrow> DockerP4Router \<Rightarrow> bool" where
  "same_node r r' \<longleftrightarrow> (\<exists>f h. r' = r\<lparr>files := f, host := h\<rparr>)"

text \<open>
  The outputs of the \<open>j\<close>-th pass of the installation loop that begins in state \<open>r\<close>: all
  three contain \<^verbatim>\<open>RuntimeCmd\<close>.
\<close>

definition pass_ok :: "DockerP4Router \<Rightarrow> nat \<Rightarrow> bool" where
  "pass_ok r j \<longleftrightarrow>
     sublist ''RuntimeCmd'' (shell_out r (length (cmds r) + 3 * j))
     \<and> sublist ''RuntimeCmd'' (shell_out r (length (cmds r) + 3 * j + 1))
     \<and> sublist ''RuntimeCmd'' (shell_out r (length (cmds r) + 3 * j + 2))"

section \<open>Construction\<close>

text \<open>
  The state after \<^verbatim>\<open>DockerRouter.__init__\<close>: \<open>idx\<close> is the value of
  \<^verbatim>\<open>int(self.name[1:])\<close>, \<open>kwargs\<close> the keyword arguments folded into
  \<open>daemonsOptions\<close> by \<^verbatim>\<open>update\<close>, \<open>sh\<close> the outputs of the node's shell. The set-up of
  the container and of the shell is outside the model.
\<close>

definition dict_update :: "('k, 'v) dict \<Rightarrow> ('k, 'v) dict \<Rightarrow> ('k, 'v) dict" where
  "dict_update d kvs = fold (\<lambda>(k, v) acc. dict_set acc k v) kvs d"

definition DockerRouter_init ::
  "string \<Rightarrow> int \<Rightarrow> string \<Rightarrow> (string, string) dict \<Rightarrow> (nat \<Rightarrow> string) \<Rightarrow> DockerRouter" where
  "DockerRouter_init nm idx sw kwargs sh =
     (let r = \<lparr>node_name = nm, inNamespace = True, portBase = 0, intfs = [], ports = [],
                nameToIntf = [], objs = (\<lambda>_. new_Intf []), next_ref = 0, cmds = [],
                shell_out = sh, moved = [],
                software = sw,
                daemonsOptions = dict_update
                  [(''zebra'', ''yes''), (''bgpd'', ''no''), (''ospfd'', ''no''), (''ospf6d'', ''no''),
                   (''ripd'', ''no''), (''ripngd'', ''no''), (''isisd'', ''no''), (''bfdd'', ''no'')] kwargs,
                daemonConfigs =
                  [(''zebra'', []), (''bgpd'', []), (''ospfd'', []), (''ospf6d'', []),
                   (''ripd'', []), (''ripngd'', []), (''isisd'', []), (''bfdd'', [])],
                generalConfig = [],
                loopbackIP = ''192.168.19.'' @ str_int (idx + 1),
                vrfDict = [(''default'', 0)],
                tableVrfDict = [(254, 0), (255, 0)],
                vrfVniDict = [(''default'', (None, []))],
                bdIntfDict = [],
                effIntfs = []\<rparr>;
          r = run r (''ifconfig lo '' @ loopbackIP r @ '' netmask 255.255.255.255 up'')
      in run r (''ip route add '' @ loopbackIP r @ '' dev lo''))"

text \<open>
  The state after \<^verbatim>\<open>DockerP4Router.__init__\<close> with the defaults of its signature for the
  arguments not listed; \<open>did\<close> is the identifier of the container.
\<close>

definition DockerP4Router_init ::
  "string \<Rightarrow> int \<Rightarrow> string \<Rightarrow> string option \<Rightarrow> string option \<Rightarrow> string option \<Rightarrow> string
     \<Rightarrow> (nat \<Rightarrow> string) \<Rightarrow> DockerP4Router" where
  "DockerP4Router_init nm idx json mediator api agent did sh =
     DockerRouter.extend (DockerRouter_init nm idx ''quagga'' [] sh)
       (DockerP4Router.fields json ''simple_switch'' None None False False ''trace''
          ''ipc:///tmp/bm-log.ipc'' mediator api None agent None 80 81 [] PyNone PyNone [] [] did)"

text \<open>
  The registries of a node after \<^verbatim>\<open>Node.__init__\<close>; \<open>heap\<close> holds the interface objects
  that exist.
\<close>

definition Node_init :: "string \<Rightarrow> bool \<Rightarrow> (ref \<Rightarrow> Intf) \<Rightarrow> (nat \<Rightarrow> string) \<Rightarrow> Node" where
  "Node_init nm inNs heap sh =
     \<lparr>node_name = nm, inNamespace = inNs, portBase = 0, intfs = [], ports = [], nameToIntf = [],
      objs = heap, next_ref = 0, cmds = [], shell_out = sh, moved = []\<rparr>"

definition node_example :: Node where
  "node_example = Node_init ''h1'' True (\<lambda>k. new_Intf (''h1-eth'' @ str_nat k)) (\<lambda>_. [])"

definition router_example :: DockerRouter where
  "router_example = DockerRouter_init ''s1'' 1 ''quagga'' [] (\<lambda>_. [])"

definition red_router :: DockerRouter where
  "red_router = addVRF router_example ''red'' 10"

definition p4_example :: DockerP4Router where
  "p4_example = DockerP4Router_init ''s1'' 1 ''p4.json'' None None None ''c0'' (\<lambda>_. [])"

text \<open>
  A router with two data interfaces and bridge domains: the states reached from
  \<open>p4_example\<close> by creating the interfaces \<^verbatim>\<open>s1-eth0\<close> and \<^verbatim>\<open>s1-eth1\<close>, adding the
  L2 VNIs 100 and 200 and attaching interfaces. Every step returns without an exception
  (lemmas \<open>bridge100_ok\<close>, \<open>bridge200_ok\<close>, \<open>attached100_ok\<close>, \<open>attached_eth0_ok\<close>,
  \<open>both_attached_ok\<close>), so \<open>projr\<close> takes the state out of the result.
\<close>

definition ipToMac_example :: "string \<Rightarrow> string" where
  "ipToMac_example a = ''02:00:0a:00:00:01''"

definition eth0_added :: DockerP4Router where
  "eth0_added = snd (projr (Intf_init p4_example ''s1-eth0'' moveIntf))"

definition eth1_added :: DockerP4Router where
  "eth1_added = snd (projr (Intf_init eth0_added ''s1-eth1'' moveIntf))"

definition bridge100 :: DockerP4Router where
  "bridge100 = projr (DockerP4Router_addL2VNI ipToMac_example eth1_added 100 ''10.0.0.1'' None None ''default'')"

definition bridge200 :: DockerP4Router where
  "bridge200 = projr (DockerP4Router_addL2VNI ipToMac_example bridge100 200 ''10.0.1.1'' None None ''default'')"

definition attached100 :: DockerP4Router where
  "attached100 = projr (DockerP4Router_attachIntfToL2VNI bridge200 ''s1-eth0'' 100 None)"








section \<open>Properties\<close>

subsection \<open>Evaluation of decimal numerals\<close>

lemma str_int_6: "str_int 6 = ''6''"
  by (simp add: str_int_def str_nat.simps digit_char_def)

lemma str_int_80: "str_int 80 = ''80''"
  by (simp add: str_int_def str_nat.simps digit_char_def)

subsection \<open>Dictionaries\<close>

lemma map_of_dict_set [simp]:
  "map_of (dict_set d k v) k' = (if k' = k then Some v else map_of d k')"
  by (simp add: dict_set_def update_conv')

lemma dict_set_not_Nil [simp]: "dict_set d k v \<noteq> []"
  by (cases d) (simp_all add: dict_set_def)

lemma value_in_dict_set: "v \<in> snd ` set (dict_set d k v)"
  unfolding dict_set_def by (induction d) auto

lemma values_dict_set: "snd ` set (dict_set d k v) \<subseteq> insert v (snd ` set d)"
  unfolding dict_set_def by (induction d) auto

lemma set_dict_set_subset: "set (dict_set d k v) \<subseteq> insert (k, v) (set d)"
  unfolding dict_set_def by (induction d) auto

lemma dict_get_Some [simp]: "map_of d k = Some v \<Longrightarrow> dict_get d k = Inr v"
  by (simp add: dict_get_def)

lemma dict_get_None [simp]: "map_of d k = None \<Longrightarrow> dict_get d k = Inl KeyError"
  by (simp add: dict_get_def)

lemma and_then_Inr [simp]: "and_then (Inr x) f = f x"
  by (simp add: and_then_def)

lemma and_then_Inl [simp]: "and_then (Inl e) f = Inl e"
  by (simp add: and_then_def)


subsection \<open>Shell commands\<close>

lemma run_fields [simp]:
  "cmds (run r c) = cmds r @ [c]"
  "shell_out (run r c) = shell_out r"
  "intfs (run r c) = intfs r" "ports (run r c) = ports r" "nameToIntf (run r c) = nameToIntf r"
  "objs (run r c) = objs r" "next_ref (run r c) = next_ref r" "node_name (run r c) = node_name r"
  "inNamespace (run r c) = inNamespace r" "portBase (run r c) = portBase r"
  "Node.more (run r c) = Node.more r"
  by (simp_all add: run_def cmd_def)

lemma run_router_fields [simp]:
  "daemonConfigs (run r c) = daemonConfigs r" "generalConfig (run r c) = generalConfig r"
  "vrfDict (run r c) = vrfDict r" "tableVrfDict (run r c) = tableVrfDict r"
  "vrfVniDict (run r c) = vrfVniDict r" "bdIntfDict (run r c) = bdIntfDict r"
  "effIntfs (run r c) = effIntfs r" "software (run r c) = software r"
  "loopbackIP (run r c) = loopbackIP r" "daemonsOptions (run r c) = daemonsOptions r"
  by (simp_all add: run_def cmd_def)

subsection \<open>Port numbers\<close>

lemma py_max_Max: "xs \<noteq> [] \<Longrightarrow> py_max xs = Max (set xs)"
  by (cases xs) (simp_all add: Max.set_eq_fold [symmetric])

lemma newPort_eq:
  "newPort n = (if ports n = [] then portBase n else Max (snd ` set (ports n)) + 1)"
  by (simp add: newPort_def py_max_Max)

lemma ports_addIntf_auto:
  "ports (addIntf n i None moveIntf) = dict_set (ports n) i (newPort n)"
  by (simp add: addIntf_def Let_def moveIntf_def)

lemma newPort_addIntf_auto: "newPort n < newPort (addIntf n i None moveIntf)"
proof -
  let ?d = "dict_set (ports n) i (newPort n)"
  have "newPort n \<in> snd ` set ?d" by (rule value_in_dict_set)
  then have "newPort n \<le> Max (snd ` set ?d)" by simp
  then show ?thesis
    by (simp add: newPort_eq [of "addIntf n i None moveIntf"] ports_addIntf_auto)
qed

lemma auto_ports_sorted:
  "\<exists>ps. auto_ports n is = map Some ps \<and> sorted_wrt (<) ps \<and> (\<forall>p \<in> set ps. newPort n \<le> p)"
proof (induction "is" arbitrary: n)
  case Nil
  then show ?case by simp
next
  case (Cons i "is")
  let ?n' = "addIntf n i None moveIntf"
  from Cons.IH [of ?n'] obtain ps where
    ps: "auto_ports ?n' is = map Some ps" "sorted_wrt (<) ps" "\<forall>p \<in> set ps. newPort ?n' \<le> p"
    by blast
  have lt: "newPort n < newPort ?n'" by (rule newPort_addIntf_auto)
  have "auto_ports n (i # is) = map Some (newPort n # ps)"
    using ps(1) by (simp add: Let_def ports_addIntf_auto)
  moreover have "sorted_wrt (<) (newPort n # ps)"
    using ps(2,3) lt by fastforce
  moreover have "\<forall>p \<in> set (newPort n # ps). newPort n \<le> p"
    using ps(3) lt by fastforce
  ultimately show ?case by blast
qed

lemma addIntf_fields:
  "intfs (addIntf n i (Some p) moveIntf) = dict_set (intfs n) p i"
  "ports (addIntf n i (Some p) moveIntf) = dict_set (ports n) i p"
  "nameToIntf (addIntf n i (Some p) moveIntf) = dict_set (nameToIntf n) (intf_name (objs n i)) i"
  "intfs (addIntf n i None moveIntf) = dict_set (intfs n) (newPort n) i"
  by (simp_all add: addIntf_def Let_def moveIntf_def)

lemma bijection_keys_bound:
  assumes "port_bijection n" "(p, i) \<in> set (intfs n)"
  shows "p < newPort n"
proof -
  from assms have m: "map_of (ports n) i = Some p" unfolding port_bijection_def by fastforce
  then have "(i, p) \<in> set (ports n)" by (rule map_of_SomeD)
  then have "p \<in> snd ` set (ports n)" by force
  then have "p \<le> Max (snd ` set (ports n))" by simp
  moreover from m have "ports n \<noteq> []" by auto
  ultimately show ?thesis by (simp add: newPort_eq)
qed

lemma set_dict_set_fresh: "map_of d k = None \<Longrightarrow> set (dict_set d k v) = insert (k, v) (set d)"
  unfolding dict_set_def by (induction d) (auto split: if_splits)

lemma addIntf_auto_bijection:
  assumes bij: "port_bijection n" and fresh: "map_of (ports n) i = None"
  shows "port_bijection (addIntf n i None moveIntf)"
proof -
  let ?q = "newPort n"
  have nokey: "map_of (intfs n) ?q = None"
  proof (rule ccontr)
    assume "map_of (intfs n) ?q \<noteq> None"
    then obtain j where "map_of (intfs n) ?q = Some j" by blast
    then have "(?q, j) \<in> set (intfs n)" by (rule map_of_SomeD)
    with bij have "?q < ?q" by (rule bijection_keys_bound)
    then show False by simp
  qed
  have s1: "set (intfs (addIntf n i None moveIntf)) = insert (?q, i) (set (intfs n))"
    by (simp add: addIntf_fields set_dict_set_fresh nokey)
  have s2: "set (ports (addIntf n i None moveIntf)) = insert (i, ?q) (set (ports n))"
    by (simp add: ports_addIntf_auto set_dict_set_fresh fresh)
  have m1: "\<And>j. map_of (ports (addIntf n i None moveIntf)) j = (if j = i then Some ?q else map_of (ports n) j)"
    by (simp add: ports_addIntf_auto)
  have m2: "\<And>p. map_of (intfs (addIntf n i None moveIntf)) p = (if p = ?q then Some i else map_of (intfs n) p)"
    by (simp add: addIntf_fields)
  show ?thesis
    unfolding port_bijection_def s1 s2 m1 m2
    using bij fresh nokey unfolding port_bijection_def by fastforce
qed

lemma auto_ports_example: "auto_ports node_example [0, 1, 2] = [Some 0, Some 1, Some 2]"
  by (simp add: Let_def ports_addIntf_auto newPort_def node_example_def Node_init_def dict_set_def)

text \<open>
  Claim C1. \<^verbatim>\<open>newPort()\<close> returns the largest port recorded in \<^verbatim>\<open>self.ports\<close> plus
  one, and \<^verbatim>\<open>portBase\<close> when no port is recorded. From every state of a node and for every
  sequence of \<^verbatim>\<open>addIntf\<close> calls without a port argument, the ports assigned are strictly
  increasing in the order of the calls, hence pairwise different.
\<close>

theorem newPort_auto_ports:
  "newPort n = (if ports n = [] then portBase n else Max (snd ` set (ports n)) + 1)
   \<and> (\<exists>ps. auto_ports n is = map Some ps \<and> sorted_wrt (<) ps \<and> distinct ps)"
proof -
  obtain ps where "auto_ports n is = map Some ps" "sorted_wrt (<) ps"
    using auto_ports_sorted [of n "is"] by blast
  moreover from this have "distinct ps"
    by (simp add: strict_sorted_iff)
  ultimately show ?thesis
    using newPort_eq by blast
qed

text \<open>
  Claim C10. When \<^verbatim>\<open>addIntf\<close> is given a port \<open>p\<close> that is already that of another
  interface \<open>old\<close>, the call goes through (the model of \<^verbatim>\<open>addIntf\<close> has no error result):
  afterwards \<open>intfs\<close> maps \<open>p\<close> to the new interface while \<open>ports\<close> still maps \<open>old\<close> to
  \<open>p\<close>, so the two registries are no longer inverse to each other. (With an automatically
  assigned port and an interface not yet registered they stay inverse: lemma
  \<open>addIntf_auto_bijection\<close>.)
\<close>

theorem addIntf_port_collision:
  assumes "map_of (intfs n) p = Some old" and "old \<noteq> new" and "map_of (ports n) old = Some p"
  shows "map_of (intfs (addIntf n new (Some p) moveIntf)) p = Some new
       \<and> map_of (ports (addIntf n new (Some p) moveIntf)) old = Some p
       \<and> map_of (ports (addIntf n new (Some p) moveIntf)) new = Some p
       \<and> \<not> port_bijection (addIntf n new (Some p) moveIntf)"
proof -
  let ?n' = "addIntf n new (Some p) moveIntf"
  have a: "map_of (intfs ?n') p = Some new" by (simp add: addIntf_fields)
  have b: "map_of (ports ?n') old = Some p" using assms by (simp add: addIntf_fields)
  have c: "map_of (ports ?n') new = Some p" by (simp add: addIntf_fields)
  from b have "(old, p) \<in> set (ports ?n')" by (rule map_of_SomeD)
  with a assms(2) have "\<not> port_bijection ?n'"
    unfolding port_bijection_def by fastforce
  with a b c show ?thesis by blast
qed

theorem addIntf_port_collision_witness:
  "map_of (intfs (addIntf node_example 0 None moveIntf)) 0 = Some 0 \<and> (0::nat) \<noteq> 1
   \<and> map_of (ports (addIntf node_example 0 None moveIntf)) 0 = Some 0
   \<and> map_of (intfs (addIntf (addIntf node_example 0 None moveIntf) 1 (Some 0) moveIntf)) 0 = Some 1
   \<and> map_of (ports (addIntf (addIntf node_example 0 None moveIntf) 1 (Some 0) moveIntf)) 0 = Some 0
   \<and> map_of (ports (addIntf (addIntf node_example 0 None moveIntf) 1 (Some 0) moveIntf)) 1 = Some 0
   \<and> \<not> port_bijection (addIntf (addIntf node_example 0 None moveIntf) 1 (Some 0) moveIntf)"
proof -
  have a: "map_of (intfs (addIntf node_example 0 None moveIntf)) 0 = Some 0"
    by (simp add: addIntf_fields newPort_def node_example_def Node_init_def)
  have b: "map_of (ports (addIntf node_example 0 None moveIntf)) 0 = Some 0"
    by (simp add: ports_addIntf_auto newPort_def node_example_def Node_init_def)
  have c: "(0::nat) \<noteq> 1" by simp
  show ?thesis
    using a b c addIntf_port_collision [OF a c b] by simp
qed

subsection \<open>Routing configuration\<close>

lemma fold_lines: "fold (\<lambda>i acc. acc @ i @ e) ls acc0 = acc0 @ concat (map (\<lambda>i. i @ e) ls)"
  by (induction ls arbitrary: acc0) simp_all

text \<open>
  Claim C7, as stated, fails: a call that gives a protocol together with the empty string
  appends the empty string to the general list, not to the list of the protocol.
\<close>

theorem addRoutingConfig_empty_line_counterexample:
  "map_of (daemonConfigs router_example) ''bgpd'' = Some []
   \<and> addRoutingConfig router_example (Some ''bgpd'') []
       = Inr (router_example\<lparr>generalConfig := [[]]\<rparr>)
   \<and> map_of (daemonConfigs (router_example\<lparr>generalConfig := [[]]\<rparr>)) ''bgpd'' = Some []"
  by (simp add: addRoutingConfig_def router_example_def DockerRouter_init_def Let_def)

text \<open>
  Claim C7, amended. For a protocol that has a configuration list: when the line is not
  the empty string, \<^verbatim>\<open>addRoutingConfig(protocol, line)\<close> appends the line at the end of
  the list of that protocol and changes neither the other lists nor the general list;
  when the line is empty, or when no protocol is given, the line is appended at the end
  of the general list. \<^verbatim>\<open>setupRoutingConfigByProtocol\<close> writes the lines of the protocol
  in the order of the list, each followed by \<^verbatim>\<open>\n\<close>.
\<close>

theorem addRoutingConfig_appends:
  assumes "map_of (daemonConfigs r) protocol = Some lines"
  shows "(configStr \<noteq> [] \<longrightarrow>
            (\<exists>r'. addRoutingConfig r (Some protocol) configStr = Inr r'
                 \<and> map_of (daemonConfigs r') protocol = Some (lines @ [configStr])
                 \<and> (\<forall>other. other \<noteq> protocol \<longrightarrow> map_of (daemonConfigs r') other = map_of (daemonConfigs r) other)
                 \<and> generalConfig r' = generalConfig r))
       \<and> addRoutingConfig r (Some protocol) [] = Inr (r\<lparr>generalConfig := generalConfig r @ [[]]\<rparr>)
       \<and> addRoutingConfig r None configStr = Inr (r\<lparr>generalConfig := generalConfig r @ [configStr]\<rparr>)
       \<and> (\<exists>r'. setupRoutingConfigByProtocol r protocol = Inr r'
               \<and> cmds r' = cmds r @ [''echo -e '' @ dquote @ concat (map (\<lambda>l. l @ esc_nl) lines) @ dquote
                                       @ '' > /etc/'' @ software r @ ''/'' @ protocol @ ''.conf''])"
  using assms
  by (simp add: addRoutingConfig_def setupRoutingConfigByProtocol_def fold_lines)

theorem addRoutingConfig_appends_witness:
  "map_of (daemonConfigs router_example) ''bgpd'' = Some []
   \<and> (\<exists>r'. addRoutingConfig router_example (Some ''bgpd'') ''router bgp 1'' = Inr r'
          \<and> map_of (daemonConfigs r') ''bgpd'' = Some [''router bgp 1''])
   \<and> (\<exists>r'. setupRoutingConfigByProtocol router_example ''bgpd'' = Inr r'
          \<and> cmds r' = cmds router_example @ [''echo -e '' @ dquote @ dquote @ '' > /etc/quagga/bgpd.conf''])"
proof -
  have a: "map_of (daemonConfigs router_example) ''bgpd'' = Some []"
    by (simp add: router_example_def DockerRouter_init_def Let_def)
  have s: "software router_example = ''quagga''"
    by (simp add: router_example_def DockerRouter_init_def Let_def)
  show ?thesis
    using a s addRoutingConfig_appends [OF a, of "''router bgp 1''"] by auto
qed

subsection \<open>VRFs and the order of table entries\<close>

lemma addVRF_fields:
  "vrfDict (addVRF r name tableId) = dict_set (vrfDict r) name tableId"
  "tableVrfDict (addVRF r name tableId) = dict_set (tableVrfDict r) tableId tableId"
  "vrfVniDict (addVRF r name tableId) = dict_set (vrfVniDict r) name (None, [])"
  "loopbackIP (addVRF r name tableId) = loopbackIP r"
  by (simp_all add: addVRF_def Let_def)


text \<open>
  Claim C5, as stated, fails: a second \<^verbatim>\<open>addVRF\<close> for a registered name replaces its
  table ID.
\<close>

theorem addVRF_overwrite_counterexample:
  "map_of (vrfDict red_router) ''red'' = Some 10
   \<and> map_of (vrfDict (addVRF red_router ''red'' 20)) ''red'' = Some 20"
  by (simp add: red_router_def addVRF_fields)

text \<open>
  Claim C5, amended. In a state in which a VRF of that name is registered,
  \<^verbatim>\<open>addVRF(name, tableId)\<close> does not fail (the model of \<^verbatim>\<open>addVRF\<close> has no error
  result) and overwrites: afterwards the name maps to the new table ID, every other name
  keeps its table ID, the table ID maps to itself in \<open>tableVrfDict\<close> and the VNIs of the
  VRF are reset.
\<close>

theorem addVRF_overwrites:
  assumes "map_of (vrfDict r) name = Some old"
  shows "map_of (vrfDict (addVRF r name tableId)) name = Some tableId
       \<and> (\<forall>other. other \<noteq> name \<longrightarrow>
             map_of (vrfDict (addVRF r name tableId)) other = map_of (vrfDict r) other)
       \<and> map_of (tableVrfDict (addVRF r name tableId)) tableId = Some tableId
       \<and> map_of (vrfVniDict (addVRF r name tableId)) name = Some (None, [])"
  by (simp add: addVRF_fields)

theorem addVRF_overwrites_witness:
  "map_of (vrfDict red_router) ''red'' = Some 10
   \<and> map_of (vrfDict (addVRF red_router ''red'' 20)) ''red'' = Some 20
   \<and> map_of (vrfDict (addVRF red_router ''red'' 20)) ''default'' = Some 0
   \<and> map_of (tableVrfDict (addVRF red_router ''red'' 20)) 20 = Some 20
   \<and> map_of (vrfVniDict (addVRF red_router ''red'' 20)) ''red'' = Some (None, [])"
proof -
  have a: "map_of (vrfDict red_router) ''red'' = Some 10"
    by (simp add: red_router_def addVRF_fields)
  have d: "map_of (vrfDict red_router) ''default'' = Some 0"
    by (simp add: red_router_def addVRF_fields router_example_def DockerRouter_init_def Let_def)
  show ?thesis
    using a d addVRF_overwrites [OF a, of 20] by simp
qed




subsection \<open>Bridge domains\<close>

lemma Intf_init_effect:
  "Intf_init r nm moveIntf =
     Inr (next_ref r,
          r\<lparr>objs := (objs r)(next_ref r := new_Intf nm), next_ref := Suc (next_ref r),
            intfs := dict_set (intfs r) (newPort r) (next_ref r),
            ports := dict_set (ports r) (next_ref r) (newPort r),
            nameToIntf := dict_set (nameToIntf r) nm (next_ref r),
            moved := (if inNamespace r then moved r @ [nm] else moved r),
            effIntfs := dict_set (effIntfs r) nm (newPort r)\<rparr>)"
  by (simp add: Intf_init_def DockerRouter_addIntf_def addIntf_def Let_def moveIntf_def newPort_def new_Intf_def)

lemma attach_effect:
  assumes "map_of (nameToIntf r) intfName = Some i"
    and "map_of (nameToIntf r) (case brname of None \<Rightarrow> ''br'' @ str_int vni | Some b \<Rightarrow> b) = Some b"
    and "i \<noteq> b"
    and "map_of (bdIntfDict r) (bdi (objs r b)) = Some l"
  shows "DockerP4Router_attachIntfToL2VNI r intfName vni brname =
     Inr (r\<lparr>objs := (objs r)(i := (objs r i)\<lparr>vrf := vrf (objs r b), bdi := bdi (objs r b)\<rparr>),
            cmds := cmds r @
              [''ip link set '' @ intfName @ '' down'',
               ''ip link set '' @ intfName @ '' master ''
                  @ (case brname of None \<Rightarrow> ''br'' @ str_int vni | Some b \<Rightarrow> b) @ '' addrgenmode none'',
               ''ip link set '' @ intfName @ '' up'',
               ''ebtables -t filter -A FORWARD  -i '' @ intfName @ '' -p ip -j DROP'',
               ''ebtables -t filter -A INPUT  -i '' @ intfName @ '' -p ip -j DROP''],
            bdIntfDict := dict_set (bdIntfDict r) (bdi (objs r b)) (l @ [i])\<rparr>)"
  using assms
  by (simp add: DockerP4Router_attachIntfToL2VNI_def DockerRouter_attachIntfToL2VNI_def Let_def
        setVRF_def setBDI_def run_def cmd_def)

lemma addL2VNI_effect:
  assumes "map_of (vrfVniDict r) vrfname = Some (l3, l2s)"
  shows "DockerP4Router_addL2VNI ipToMac r vni brip devname brname vrfname =
     (let dev = (case devname of None \<Rightarrow> ''vxlan'' @ str_int vni | Some d \<Rightarrow> d);
          br = (case brname of None \<Rightarrow> ''br'' @ str_int vni | Some b \<Rightarrow> b)
      in Inr (r\<lparr>objs := (objs r)(next_ref r :=
                  \<lparr>intf_name = br, mac = Some (ipToMac brip), ip = Some brip, vrf = vrfname,
                   bdi = Some vni\<rparr>),
                next_ref := Suc (next_ref r),
                intfs := dict_set (intfs r) (newPort r) (next_ref r),
                ports := dict_set (ports r) (next_ref r) (newPort r),
                nameToIntf := dict_set (nameToIntf r) br (next_ref r),
                cmds := cmds r @
                  [''ip link add '' @ br @ '' type bridge'',
                   ''ip link set '' @ br @ '' addrgenmode none'',
                   ''ebtables -t filter -A INPUT  -i '' @ dev @ '' -j DROP'',
                   ''ebtables -t filter -A INPUT  -i '' @ br @ '' -j DROP'',
                   ''ip link add '' @ dev @ '' type vxlan local '' @ loopbackIP r
                      @ '' dstport 4789 id '' @ str_int vni @ '' nolearning'',
                   ''ip link set '' @ dev @ '' master '' @ br @ '' addrgenmode none'',
                   ''ip link set '' @ dev @ '' type bridge_slave neigh_suppress off learning off'',
                   ''ip link set '' @ dev @ '' up'',
                   ''ip link set '' @ br @ '' up''],
                vrfVniDict := dict_set (vrfVniDict r) vrfname (l3, l2s @ [vni]),
                bdIntfDict := dict_set (bdIntfDict r) (Some vni) [],
                effIntfs := AList.delete br (dict_set (effIntfs r) br (newPort r))\<rparr>))"
  using assms
  by (simp add: DockerP4Router_addL2VNI_def DockerRouter_addL2VNI_def Intf_init_def
        DockerRouter_addIntf_def addIntf_def Let_def newPort_def new_Intf_def
        setMAC_def setIP_def setVRF_def setBDI_def run_def cmd_def dict_del_def
        split: option.splits)

lemma str_int_small:
  "str_int 1 = ''1''" "str_int 2 = ''2''" "str_int 3 = ''3''" "str_int 81 = ''81''"
  "str_int 100 = ''100''" "str_int 200 = ''200''"
  by (simp_all add: str_int_def str_nat.simps digit_char_def)

lemma p4_example_fields:
  "intfs p4_example = []" "ports p4_example = []" "nameToIntf p4_example = []"
  "effIntfs p4_example = []" "bdIntfDict p4_example = []"
  "vrfVniDict p4_example = [(''default'', (None, []))]" "vrfDict p4_example = [(''default'', 0)]"
  "next_ref p4_example = 0" "inNamespace p4_example = True" "portBase p4_example = 0"
  "cpu_input_port p4_example = 80" "cpu_output_port p4_example = 81"
  "loopbackIP p4_example = ''192.168.19.2''"
  by (simp_all add: p4_example_def DockerP4Router_init_def DockerRouter_init_def DockerRouter.defs
        DockerP4Router.defs Let_def run_def cmd_def str_int_def str_nat.simps digit_char_def)

lemma eth0_added_fields:
  "intfs eth0_added = [(0, 0)]" "ports eth0_added = [(0, 0)]" "nameToIntf eth0_added = [(''s1-eth0'', 0)]"
  "effIntfs eth0_added = [(''s1-eth0'', 0)]" "bdIntfDict eth0_added = []"
  "vrfVniDict eth0_added = [(''default'', (None, []))]" "vrfDict eth0_added = [(''default'', 0)]"
  "next_ref eth0_added = 1" "inNamespace eth0_added = True" "portBase eth0_added = 0"
  "cpu_input_port eth0_added = 80" "cpu_output_port eth0_added = 81"
  "loopbackIP eth0_added = ''192.168.19.2''"
  "objs eth0_added 0 = new_Intf ''s1-eth0''"
  by (simp_all add: eth0_added_def Intf_init_effect p4_example_fields newPort_def dict_set_def)

lemma eth1_added_fields:
  "intfs eth1_added = [(0, 0), (1, 1)]" "ports eth1_added = [(0, 0), (1, 1)]"
  "nameToIntf eth1_added = [(''s1-eth0'', 0), (''s1-eth1'', 1)]"
  "effIntfs eth1_added = [(''s1-eth0'', 0), (''s1-eth1'', 1)]" "bdIntfDict eth1_added = []"
  "vrfVniDict eth1_added = [(''default'', (None, []))]" "vrfDict eth1_added = [(''default'', 0)]"
  "next_ref eth1_added = 2" "inNamespace eth1_added = True" "portBase eth1_added = 0"
  "cpu_input_port eth1_added = 80" "cpu_output_port eth1_added = 81"
  "loopbackIP eth1_added = ''192.168.19.2''"
  "objs eth1_added 0 = new_Intf ''s1-eth0''" "objs eth1_added (Suc 0) = new_Intf ''s1-eth1''"
  by (simp_all add: eth1_added_def Intf_init_effect eth0_added_fields newPort_def dict_set_def)

lemma bridge100_ok:
  "DockerP4Router_addL2VNI ipToMac_example eth1_added 100 ''10.0.0.1'' None None ''default'' = Inr bridge100"
  by (simp add: bridge100_def addL2VNI_effect [where ?l3.0 = None and l2s = "[]"] eth1_added_fields Let_def)

lemma bridge100_fields:
  "intfs bridge100 = [(0, 0), (1, 1), (2, 2)]" "ports bridge100 = [(0, 0), (1, 1), (2, 2)]"
  "nameToIntf bridge100 = [(''s1-eth0'', 0), (''s1-eth1'', 1), (''br100'', 2)]"
  "effIntfs bridge100 = [(''s1-eth0'', 0), (''s1-eth1'', 1)]" "bdIntfDict bridge100 = [(Some 100, [])]"
  "vrfVniDict bridge100 = [(''default'', (None, [100]))]" "vrfDict bridge100 = [(''default'', 0)]"
  "next_ref bridge100 = 3"
  "cpu_input_port bridge100 = 80" "cpu_output_port bridge100 = 81"
  "loopbackIP bridge100 = ''192.168.19.2''"
  "objs bridge100 0 = new_Intf ''s1-eth0''" "objs bridge100 (Suc 0) = new_Intf ''s1-eth1''"
  "objs bridge100 2 = \<lparr>intf_name = ''br100'', mac = Some ''02:00:0a:00:00:01'', ip = Some ''10.0.0.1'',
                         vrf = ''default'', bdi = Some 100\<rparr>"
  by (simp_all add: bridge100_def addL2VNI_effect [where ?l3.0 = None and l2s = "[]"] eth1_added_fields
        newPort_def dict_set_def str_int_small ipToMac_example_def Let_def)

lemma bridge200_ok:
  "DockerP4Router_addL2VNI ipToMac_example bridge100 200 ''10.0.1.1'' None None ''default'' = Inr bridge200"
  by (simp add: bridge200_def addL2VNI_effect [where ?l3.0 = None and l2s = "[100]"] bridge100_fields Let_def)

lemma bridge200_fields:
  "ports bridge200 = [(0, 0), (1, 1), (2, 2), (3, 3)]"
  "nameToIntf bridge200 = [(''s1-eth0'', 0), (''s1-eth1'', 1), (''br100'', 2), (''br200'', 3)]"
  "bdIntfDict bridge200 = [(Some 100, []), (Some 200, [])]"
  "bdi (objs bridge200 2) = Some 100" "bdi (objs bridge200 3) = Some 200"
  by (simp_all add: bridge200_def addL2VNI_effect [where ?l3.0 = None and l2s = "[100]"] bridge100_fields
        newPort_def dict_set_def str_int_small ipToMac_example_def Let_def)

lemma attached100_ok:
  "DockerP4Router_attachIntfToL2VNI bridge200 ''s1-eth0'' 100 None = Inr attached100"
  by (simp add: attached100_def
        attach_effect [where i = 0 and b = 2 and l = "[]"] bridge200_fields str_int_small)

lemma attached100_fields:
  "nameToIntf attached100 = [(''s1-eth0'', 0), (''s1-eth1'', 1), (''br100'', 2), (''br200'', 3)]"
  "bdIntfDict attached100 = [(Some 100, [0]), (Some 200, [])]"
  "bdi (objs attached100 0) = Some 100"
  "bdi (objs attached100 2) = Some 100" "bdi (objs attached100 3) = Some 200"
  by (simp_all add: attached100_def
        attach_effect [where i = 0 and b = 2 and l = "[]"] bridge200_fields str_int_small dict_set_def)





text \<open>
  Claim C4, as stated, fails: after attaching \<^verbatim>\<open>s1-eth0\<close> to the bridge domain 100 and
  then to the bridge domain 200, the interface is in the membership lists of both.
\<close>

theorem reattach_counterexample:
  "DockerP4Router_attachIntfToL2VNI bridge200 ''s1-eth0'' 100 None = Inr attached100
   \<and> map_sum id bdIntfDict (DockerP4Router_attachIntfToL2VNI attached100 ''s1-eth0'' 200 None)
       = Inr [(Some 100, [0]), (Some 200, [0])]"
  by (simp add: attached100_ok
        attach_effect [where i = 0 and b = 3 and l = "[]"] attached100_fields str_int_small dict_set_def)

text \<open>
  Claim C4, amended. After \<^verbatim>\<open>attachIntfToL2VNI\<close> attaches an interface to a first bridge
  domain and then to a second one, the VRF and the bridge-domain index of the interface
  are those of the second bridge and the interface is at the end of the membership list
  of the second domain; it also stays in the list of the first domain, since attaching
  only appends.
\<close>

theorem reattach_appends:
  assumes "map_of (nameToIntf r) intfName = Some i"
    and "map_of (nameToIntf r) (''br'' @ str_int vni1) = Some b1"
    and "map_of (nameToIntf r) (''br'' @ str_int vni2) = Some b2"
    and "i \<noteq> b1" and "i \<noteq> b2"
    and "bdi (objs r b1) \<noteq> bdi (objs r b2)"
    and "map_of (bdIntfDict r) (bdi (objs r b1)) = Some l1"
    and "map_of (bdIntfDict r) (bdi (objs r b2)) = Some l2"
  shows "\<exists>r1 r2. DockerP4Router_attachIntfToL2VNI r intfName vni1 None = Inr r1
           \<and> DockerP4Router_attachIntfToL2VNI r1 intfName vni2 None = Inr r2
           \<and> bdi (objs r2 i) = bdi (objs r b2) \<and> vrf (objs r2 i) = vrf (objs r b2)
           \<and> map_of (bdIntfDict r2) (bdi (objs r b2)) = Some (l2 @ [i])
           \<and> map_of (bdIntfDict r2) (bdi (objs r b1)) = Some (l1 @ [i])"
proof -
  obtain r1 where r1: "DockerP4Router_attachIntfToL2VNI r intfName vni1 None = Inr r1"
    and f1: "nameToIntf r1 = nameToIntf r" "objs r1 b2 = objs r b2"
      "bdIntfDict r1 = dict_set (bdIntfDict r) (bdi (objs r b1)) (l1 @ [i])"
    using attach_effect [where r = r and intfName = intfName and i = i and brname = None
        and vni = vni1 and b = b1 and l = l1] assms
    by simp
  obtain r2 where r2: "DockerP4Router_attachIntfToL2VNI r1 intfName vni2 None = Inr r2"
    and f2: "objs r2 i = (objs r1 i)\<lparr>vrf := vrf (objs r b2), bdi := bdi (objs r b2)\<rparr>"
      "bdIntfDict r2 = dict_set (bdIntfDict r1) (bdi (objs r b2)) (l2 @ [i])"
    using attach_effect [where r = r1 and intfName = intfName and i = i and brname = None
        and vni = vni2 and b = b2 and l = l2] assms f1
    by simp
  show ?thesis
    using r1 r2 f1 f2 assms(6) by auto
qed

theorem reattach_appends_witness:
  "map_of (nameToIntf bridge200) ''s1-eth0'' = Some 0
   \<and> map_of (nameToIntf bridge200) (''br'' @ str_int 100) = Some 2
   \<and> map_of (nameToIntf bridge200) (''br'' @ str_int 200) = Some 3
   \<and> (0::nat) \<noteq> 2 \<and> (0::nat) \<noteq> 3
   \<and> bdi (objs bridge200 2) \<noteq> bdi (objs bridge200 3)
   \<and> map_of (bdIntfDict bridge200) (bdi (objs bridge200 2)) = Some []
   \<and> map_of (bdIntfDict bridge200) (bdi (objs bridge200 3)) = Some []
   \<and> (\<exists>r1 r2. DockerP4Router_attachIntfToL2VNI bridge200 ''s1-eth0'' 100 None = Inr r1
           \<and> DockerP4Router_attachIntfToL2VNI r1 ''s1-eth0'' 200 None = Inr r2
           \<and> bdi (objs r2 0) = Some 200
           \<and> map_of (bdIntfDict r2) (Some 200) = Some [0]
           \<and> map_of (bdIntfDict r2) (Some 100) = Some [0])"
proof -
  have a: "map_of (nameToIntf bridge200) ''s1-eth0'' = Some 0"
    and b: "map_of (nameToIntf bridge200) (''br'' @ str_int 100) = Some 2"
    and c: "map_of (nameToIntf bridge200) (''br'' @ str_int 200) = Some 3"
    and d: "(0::nat) \<noteq> 2" and e: "(0::nat) \<noteq> 3"
    and f: "bdi (objs bridge200 2) \<noteq> bdi (objs bridge200 3)"
    and g: "map_of (bdIntfDict bridge200) (bdi (objs bridge200 2)) = Some []"
    and h: "map_of (bdIntfDict bridge200) (bdi (objs bridge200 3)) = Some []"
    by (simp_all add: bridge200_fields str_int_small)
  show ?thesis
    using a b c d e f g h reattach_appends [OF a b c d e f g h]
    by (auto simp: bridge200_fields)
qed

subsection \<open>The multicast group of a bridge domain\<close>




lemma mirroring_not_mcast:
  "\<not> is_mcast_cmd (''mirroring_add 819 80'' @ nl)"
  "\<not> is_mcast_cmd (''mirroring_add 114 80'' @ nl)"
  by (simp_all add: is_mcast_cmd_def)










subsection \<open>Starting the node\<close>

lemma cmd_simps [simp]:
  "fst (cmd r c) = shell_out r (length (cmds r))"
  "snd (cmd r c) = r\<lparr>cmds := cmds r @ [c]\<rparr>"
  by (simp_all add: cmd_def)

lemma install_loop_done:
  "sublist ''RuntimeCmd'' c1 \<Longrightarrow> sublist ''RuntimeCmd'' c2 \<Longrightarrow> sublist ''RuntimeCmd'' c3
     \<Longrightarrow> install_loop fuel r c1 c2 c3 = Finished r"
  by (simp add: install_loop.simps [of fuel r c1 c2 c3])

lemma install_loop_out_of_fuel:
  "\<not> (sublist ''RuntimeCmd'' c1 \<and> sublist ''RuntimeCmd'' c2 \<and> sublist ''RuntimeCmd'' c3)
     \<Longrightarrow> install_loop 0 r c1 c2 c3 = InstallingTables r"
  by (auto simp add: install_loop.simps [of 0 r c1 c2 c3])

lemma install_loop_step:
  "\<not> (sublist ''RuntimeCmd'' c1 \<and> sublist ''RuntimeCmd'' c2 \<and> sublist ''RuntimeCmd'' c3)
     \<Longrightarrow> install_loop (Suc fuel) r c1 c2 c3 =
           install_loop fuel (r\<lparr>cmds := cmds r @ install_cmds\<rparr>)
             (shell_out r (length (cmds r)))
             (shell_out r (length (cmds r) + 1))
             (shell_out r (length (cmds r) + 2))"
  by (auto simp add: install_loop.simps [of "Suc fuel" r c1 c2 c3] cmd_def install_cmds_def
        split: prod.splits)

lemma pass_ok_shift:
  "pass_ok (r\<lparr>cmds := cmds r @ install_cmds\<rparr>) j = pass_ok r (Suc j)"
proof -
  have a: "length (cmds (r\<lparr>cmds := cmds r @ install_cmds\<rparr>)) + 3 * j = length (cmds r) + 3 * Suc j"
    by (simp add: install_cmds_def)
  have s: "shell_out (r\<lparr>cmds := cmds r @ install_cmds\<rparr>) = shell_out r"
    by simp
  show ?thesis
    unfolding pass_ok_def a s by (rule refl)
qed

lemma install_loop_spec:
  assumes "\<not> (sublist ''RuntimeCmd'' c1 \<and> sublist ''RuntimeCmd'' c2 \<and> sublist ''RuntimeCmd'' c3)"
  shows "(\<exists>k<fuel. pass_ok r k \<and> (\<forall>j<k. \<not> pass_ok r j)
            \<and> install_loop fuel r c1 c2 c3
                = Finished (r\<lparr>cmds := cmds r @ concat (replicate (Suc k) install_cmds)\<rparr>))
       \<or> ((\<forall>j<fuel. \<not> pass_ok r j)
            \<and> install_loop fuel r c1 c2 c3
                = InstallingTables (r\<lparr>cmds := cmds r @ concat (replicate fuel install_cmds)\<rparr>))"
  using assms
proof (induction fuel arbitrary: r c1 c2 c3)
  case 0
  then show ?case by (simp add: install_loop_out_of_fuel)
next
  case (Suc fuel)
  let ?r = "r\<lparr>cmds := cmds r @ install_cmds\<rparr>"
  let ?o1 = "shell_out r (length (cmds r))"
  let ?o2 = "shell_out r (length (cmds r) + 1)"
  let ?o3 = "shell_out r (length (cmds r) + 2)"
  have step: "install_loop (Suc fuel) r c1 c2 c3 = install_loop fuel ?r ?o1 ?o2 ?o3"
    using Suc.prems by (rule install_loop_step)
  have p0: "pass_ok r 0 \<longleftrightarrow> sublist ''RuntimeCmd'' ?o1 \<and> sublist ''RuntimeCmd'' ?o2 \<and> sublist ''RuntimeCmd'' ?o3"
    by (simp add: pass_ok_def)
  show ?case
  proof (cases "pass_ok r 0")
    case True
    then have "install_loop fuel ?r ?o1 ?o2 ?o3 = Finished ?r"
      using p0 by (simp add: install_loop_done)
    with step True show ?thesis by auto
  next
    case False
    then have no: "\<not> (sublist ''RuntimeCmd'' ?o1 \<and> sublist ''RuntimeCmd'' ?o2 \<and> sublist ''RuntimeCmd'' ?o3)"
      using p0 by simp
    have lt: "(\<forall>j<Suc k. \<not> pass_ok r j) \<longleftrightarrow> (\<forall>j<k. \<not> pass_ok r (Suc j))" for k
      using False by (auto simp: less_Suc_eq_0_disj)
    from Suc.IH [OF no, of ?r]
    show ?thesis
    proof (elim disjE exE conjE)
      fix k
      assume k: "k < fuel" "pass_ok ?r k" "\<forall>j<k. \<not> pass_ok ?r j"
        and e: "install_loop fuel ?r ?o1 ?o2 ?o3
                  = Finished (?r\<lparr>cmds := cmds ?r @ concat (replicate (Suc k) install_cmds)\<rparr>)"
      have "Suc k < Suc fuel" using k by simp
      moreover have "pass_ok r (Suc k)" using k by (simp add: pass_ok_shift)
      moreover have "\<forall>j<Suc k. \<not> pass_ok r j" using k lt by (simp add: pass_ok_shift)
      moreover have "install_loop (Suc fuel) r c1 c2 c3
                  = Finished (r\<lparr>cmds := cmds r @ concat (replicate (Suc (Suc k)) install_cmds)\<rparr>)"
        using step e by simp
      ultimately show ?thesis by blast
    next
      assume n: "\<forall>j<fuel. \<not> pass_ok ?r j"
        and e: "install_loop fuel ?r ?o1 ?o2 ?o3
                  = InstallingTables (?r\<lparr>cmds := cmds ?r @ concat (replicate fuel install_cmds)\<rparr>)"
      have "\<forall>j<Suc fuel. \<not> pass_ok r j" using n lt by (simp add: pass_ok_shift)
      moreover have "install_loop (Suc fuel) r c1 c2 c3
                  = InstallingTables (r\<lparr>cmds := cmds r @ concat (replicate (Suc fuel) install_cmds)\<rparr>)"
        using step e by simp
      ultimately show ?thesis by blast
    qed
  qed
qed

lemma not_init: "\<not> (sublist ''RuntimeCmd'' ''init'' \<and> sublist ''RuntimeCmd'' ''init'' \<and> sublist ''RuntimeCmd'' ''init'')"
  by (simp add: sublist_code)













lemma install_loop_terminates:
  assumes "pass_ok r k" and "k < fuel"
  shows "\<exists>r'. install_loop fuel r ''init'' ''init'' ''init'' = Finished r'"
  using install_loop_spec [OF not_init, of fuel r] assms by auto






lemma same_node_refl: "same_node r r"
proof -
  have "r = r\<lparr>files := files r, host := host r\<rparr>" by simp
  then show ?thesis unfolding same_node_def by blast
qed
















subsection \<open>ACL entries\<close>

lemma addACLConfig_entry:
  "aclConfig (addACLConfig r d s p dp sp) = aclConfig r @
     [[ (if d = PyNone then PyStr ''0&&&0'' else d),
        (if s = PyNone then PyStr ''0&&&0'' else s),
        (case p of PyNone \<Rightarrow> PyStr ''0&&&0'' | PyStr x \<Rightarrow> PyStr x
         | PyInt i \<Rightarrow> PyStr (str_int i @ ''&&&0xff'')),
        (if p = PyInt 6 then
           (case dp of PyNone \<Rightarrow> PyStr ''0&&&0'' | PyStr x \<Rightarrow> PyStr x
            | PyInt i \<Rightarrow> PyStr (str_int i @ ''&&&0xffff''))
         else PyStr ''0&&&0''),
        (if p = PyInt 6 then
           (case sp of PyNone \<Rightarrow> PyStr ''0&&&0'' | PyStr x \<Rightarrow> PyStr x
            | PyInt i \<Rightarrow> PyStr (str_int i @ ''&&&0xffff''))
         else PyStr ''0&&&0''),
        (if p = PyInt 17 then
           (case dp of PyNone \<Rightarrow> PyStr ''0&&&0'' | PyStr x \<Rightarrow> PyStr x
            | PyInt i \<Rightarrow> PyStr (str_int i @ ''&&&0xffff''))
         else PyStr ''0&&&0''),
        (if p = PyInt 17 then
           (case sp of PyNone \<Rightarrow> PyStr ''0&&&0'' | PyStr x \<Rightarrow> PyStr x
            | PyInt i \<Rightarrow> PyStr (str_int i @ ''&&&0xffff''))
         else PyStr ''0&&&0'') ]]"
  by (cases p; cases dp; cases sp)
     (simp_all add: addACLConfig_def masked_def numeral_eq_Suc)

text \<open>
  Claim C2. \<^verbatim>\<open>addACLConfig(dstAddr="10.0.0.1", protocol=6, dstPort=80)\<close> appends exactly
  the entry \<^verbatim>\<open>["10.0.0.1", "0&&&0", "6&&&0xff", "80&&&0xffff", "0&&&0", "0&&&0", "0&&&0"]\<close>.
  In general the call appends one entry of seven fields: an address that is not given is
  the wildcard \<^verbatim>\<open>0&&&0\<close>; the protocol is the wildcard when not given and
  \<^verbatim>\<open>value&&&0xff\<close> when an integer; the ports, \<^verbatim>\<open>value&&&0xffff\<close> when integers, go to
  the fields 3 and 4 when the protocol is 6 and to the fields 5 and 6 when it is 17, and
  every other port field is the wildcard.
\<close>

theorem addACLConfig_encoding:
  "aclConfig (addACLConfig r (PyStr ''10.0.0.1'') PyNone (PyInt 6) (PyInt 80) PyNone)
     = aclConfig r @ [[PyStr ''10.0.0.1'', PyStr ''0&&&0'', PyStr ''6&&&0xff'', PyStr ''80&&&0xffff'',
                      PyStr ''0&&&0'', PyStr ''0&&&0'', PyStr ''0&&&0'']]
   \<and> aclConfig (addACLConfig r dstAddr srcAddr protocol dstPort srcPort) = aclConfig r @
     [[ (if dstAddr = PyNone then PyStr ''0&&&0'' else dstAddr),
        (if srcAddr = PyNone then PyStr ''0&&&0'' else srcAddr),
        (case protocol of PyNone \<Rightarrow> PyStr ''0&&&0'' | PyStr x \<Rightarrow> PyStr x
         | PyInt i \<Rightarrow> PyStr (str_int i @ ''&&&0xff'')),
        (if protocol = PyInt 6 then
           (case dstPort of PyNone \<Rightarrow> PyStr ''0&&&0'' | PyStr x \<Rightarrow> PyStr x
            | PyInt i \<Rightarrow> PyStr (str_int i @ ''&&&0xffff''))
         else PyStr ''0&&&0''),
        (if protocol = PyInt 6 then
           (case srcPort of PyNone \<Rightarrow> PyStr ''0&&&0'' | PyStr x \<Rightarrow> PyStr x
            | PyInt i \<Rightarrow> PyStr (str_int i @ ''&&&0xffff''))
         else PyStr ''0&&&0''),
        (if protocol = PyInt 17 then
           (case dstPort of PyNone \<Rightarrow> PyStr ''0&&&0'' | PyStr x \<Rightarrow> PyStr x
            | PyInt i \<Rightarrow> PyStr (str_int i @ ''&&&0xffff''))
         else PyStr ''0&&&0''),
        (if protocol = PyInt 17 then
           (case srcPort of PyNone \<Rightarrow> PyStr ''0&&&0'' | PyStr x \<Rightarrow> PyStr x
            | PyInt i \<Rightarrow> PyStr (str_int i @ ''&&&0xffff''))
         else PyStr ''0&&&0'') ]]"
proof
  show "aclConfig (addACLConfig r (PyStr ''10.0.0.1'') PyNone (PyInt 6) (PyInt 80) PyNone)
     = aclConfig r @ [[PyStr ''10.0.0.1'', PyStr ''0&&&0'', PyStr ''6&&&0xff'', PyStr ''80&&&0xffff'',
                      PyStr ''0&&&0'', PyStr ''0&&&0'', PyStr ''0&&&0'']]"
    by (simp add: addACLConfig_entry str_int_80 str_int_6)
qed (rule addACLConfig_entry)

text \<open>
  Claim C9. When the protocol argument is neither the integer 6 nor the integer 17 (also
  when it is omitted), the port arguments are ignored: the four port fields of the entry
  that the call appends are the wildcard \<^verbatim>\<open>0&&&0\<close>.
\<close>

theorem addACLConfig_other_protocol:
  assumes "protocol \<noteq> PyInt 6" and "protocol \<noteq> PyInt 17"
  shows "\<exists>a b c. aclConfig (addACLConfig r dstAddr srcAddr protocol dstPort srcPort)
           = aclConfig r @ [[a, b, c, PyStr ''0&&&0'', PyStr ''0&&&0'', PyStr ''0&&&0'', PyStr ''0&&&0'']]"
  using assms by (simp add: addACLConfig_entry)

theorem addACLConfig_other_protocol_witness:
  "PyInt 1 \<noteq> PyInt 6 \<and> PyInt 1 \<noteq> PyInt 17 \<and>
   (\<exists>a b c. aclConfig (addACLConfig p4_example PyNone PyNone (PyInt 1) (PyInt 80) (PyInt 22))
           = aclConfig p4_example @ [[a, b, c, PyStr ''0&&&0'', PyStr ''0&&&0'', PyStr ''0&&&0'', PyStr ''0&&&0'']])"
  using addACLConfig_other_protocol [of "PyInt 1" p4_example PyNone PyNone "PyInt 80" "PyInt 22"]
  by simp

end
